theory Spec2Isabelle
  imports Complex_Main "HOL-Library.AList" "HOL-Library.Sublist"
begin

section \<open>Fireboard: the data fetched from the cloud API\<close>

text \<open>
  The raw device list is JSON: a list of dictionaries. Each dictionary is modelled as a
  record holding exactly the entries that \<^verbatim>\<open>async_update_data\<close> and the entity classes
  read. JSON numbers are exact rationals here (the Python floats of the source are
  abstracted to the numbers they denote); a JSON null or a missing reading is \<open>None\<close>.
\<close>

record temp_reading =
  reading_channel :: int
  reading_temp :: rat
  reading_created :: nat

record channel_data =
  channel :: int
  channel_label :: string

record device_data =
  degreetype :: int
  hardware_id :: string
  uuid :: string
  device_id :: int
  model :: string
  title :: string
  version :: string
  device_log_macNIC :: string
  last_battery_reading :: rat
  channels :: "channel_data list"
  latest_temps :: "temp_reading list"

text \<open>
  The unit constants are imported by the source from the host framework and from the
  API client; only their names are known, so they are kept symbolic.
\<close>

datatype unit_const = TEMP_CELSIUS | TEMP_FAHRENHEIT | PERCENTAGE

datatype device_class_const = DEVICE_CLASS_BATTERY | DEVICE_CLASS_TEMPERATURE

record parent_device =
  pd_hardware_id :: string
  pd_uuid :: string
  pd_id :: int
  pd_manufacturer :: string
  pd_model :: string
  pd_name :: string
  pd_sw_version :: string
  pd_mac_id :: string
  pd_battery :: rat
  pd_unit_of_measurement :: unit_const

text \<open>
  The two shapes of dictionary stored in \<^verbatim>\<open>entities\<close>: \<^verbatim>\<open>battery_sensor\<close> has the entries
  \<^verbatim>\<open>parent_device\<close> and \<^verbatim>\<open>unique_id\<close>; \<^verbatim>\<open>sensor_entity\<close> has the entries of the channel
  dictionary (spread first), then \<^verbatim>\<open>parent_device\<close>, \<^verbatim>\<open>state\<close> and \<^verbatim>\<open>unique_id\<close>.
\<close>

datatype entity_dict =
  Battery_sensor parent_device string
| Sensor_entity channel_data parent_device "rat option" string

type_synonym snapshot = "(string \<times> entity_dict) list"

section \<open>Fireboard: string formatting of the keys\<close>

definition digit_char :: "nat \<Rightarrow> char" where
  "digit_char d = ''0123456789'' ! (d mod 10)"

fun decimal :: "nat \<Rightarrow> string" where
  "decimal n = (if n < 10 then [digit_char n] else decimal (n div 10) @ [digit_char (n mod 10)])"

declare decimal.simps [simp del]

definition zfill :: "nat \<Rightarrow> string \<Rightarrow> string" where
  "zfill w s = replicate (w - length s) (CHR ''0'') @ s"

text \<open>
  Python's format specification \<^verbatim>\<open>02\<close> on an integer: zero fill to a total width of two,
  the sign counted in the width and written before the fill.
\<close>

definition format_02 :: "int \<Rightarrow> string" where
  "format_02 n =
     (if n < 0 then CHR ''-'' # zfill 1 (decimal (nat (- n))) else zfill 2 (decimal (nat n)))"

section \<open>Fireboard: the projection in \<^verbatim>\<open>async_update_data\<close>\<close>

definition unit_of_device :: "device_data \<Rightarrow> unit_const" where
  "unit_of_device device = (if degreetype device = 2 then TEMP_FAHRENHEIT else TEMP_CELSIUS)"

definition make_parent_device :: "device_data \<Rightarrow> parent_device" where
  "make_parent_device device =
     \<lparr> pd_hardware_id = hardware_id device,
       pd_uuid = uuid device,
       pd_id = device_id device,
       pd_manufacturer = ''Fireboard Labs'',
       pd_model = model device,
       pd_name = title device,
       pd_sw_version = version device,
       pd_mac_id = device_log_macNIC device,
       pd_battery = last_battery_reading device * 100,
       pd_unit_of_measurement = unit_of_device device \<rparr>"

definition battery_unique_id :: "parent_device \<Rightarrow> string" where
  "battery_unique_id pd = pd_hardware_id pd @ ''_battery''"

text \<open>\<^verbatim>\<open>next((x["temp"] for x in latest_temps if x["channel"] == ch), None)\<close>\<close>

fun channel_temp :: "temp_reading list \<Rightarrow> int \<Rightarrow> rat option" where
  "channel_temp [] ch = None"
| "channel_temp (x # xs) ch =
     (if reading_channel x = ch then Some (reading_temp x) else channel_temp xs ch)"

definition channel_unique_id :: "parent_device \<Rightarrow> channel_data \<Rightarrow> string" where
  "channel_unique_id pd cd = pd_hardware_id pd @ ''_'' @ format_02 (channel cd)"

definition make_sensor_entity :: "device_data \<Rightarrow> parent_device \<Rightarrow> channel_data \<Rightarrow> entity_dict" where
  "make_sensor_entity device pd cd =
     Sensor_entity cd pd (channel_temp (latest_temps device) (channel cd)) (channel_unique_id pd cd)"

text \<open>
  \<^verbatim>\<open>entities[k] = v\<close> on a Python dictionary: an existing key keeps its place and gets
  the new value, a new key is appended. That is \<^const>\<open>AList.update\<close>.
\<close>

definition channel_loop_step :: "device_data \<Rightarrow> parent_device \<Rightarrow> channel_data \<Rightarrow> snapshot \<Rightarrow> snapshot" where
  "channel_loop_step device pd cd entities =
     AList.update (channel_unique_id pd cd) (make_sensor_entity device pd cd) entities"

definition device_loop_step :: "device_data \<Rightarrow> snapshot \<Rightarrow> snapshot" where
  "device_loop_step device entities =
     (let pd = make_parent_device device;
          entities1 = AList.update (battery_unique_id pd)
                        (Battery_sensor pd (battery_unique_id pd)) entities
      in fold (channel_loop_step device pd) (channels device) entities1)"

definition project :: "device_data list \<Rightarrow> snapshot" where
  "project device_list_data = fold device_loop_step device_list_data []"

section \<open>Fireboard: failures of the update method\<close>

text \<open>
  The exceptions that occur: those of the API client raised by \<^verbatim>\<open>list_devices\<close>, the
  timeout raised by the \<^verbatim>\<open>async_timeout.timeout(10)\<close> block, the two exceptions the update
  method raises for the coordinator, and the \<^verbatim>\<open>KeyError\<close> of a dictionary lookup.
  The payload of an API error is its message, \<^verbatim>\<open>str(err)\<close>.
\<close>

datatype exn =
  FireboardApiAuthError
| FireboardApiError string
| AsyncioTimeoutError
| ConfigEntryAuthFailed
| UpdateFailed string
| KeyError string

text \<open>
  \<^verbatim>\<open>async_update_data\<close>, given the outcome of \<^verbatim>\<open>api_client.list_devices()\<close> under the
  timeout. The \<^verbatim>\<open>except\<close> clauses are tried in the order of the source; an exception that
  neither clause names (the timeout) leaves the function unchanged.
\<close>

fun async_update_data :: "exn + device_data list \<Rightarrow> exn + snapshot" where
  "async_update_data (Inr device_list_data) = Inr (project device_list_data)"
| "async_update_data (Inl FireboardApiAuthError) = Inl ConfigEntryAuthFailed"
| "async_update_data (Inl (FireboardApiError err)) =
     Inl (UpdateFailed (''Error communicating with API: '' @ err))"
| "async_update_data (Inl e) = Inl e"

section \<open>The coordinator\<close>

datatype coordinator_state = Uninitialized | Refreshing | Ready | Failed_Auth

record coordinator =
  co_state :: coordinator_state
  co_data :: snapshot
  co_timer_running :: bool
  co_update_interval :: nat
  co_reauth_requested :: bool
  co_fetches :: nat

text \<open>
  The coordinator as the source constructs it: \<^verbatim>\<open>update_interval=timedelta(seconds=20)\<close>,
  no data yet.
\<close>

definition new_coordinator :: coordinator where
  "new_coordinator =
     \<lparr> co_state = Uninitialized, co_data = [], co_timer_running = True,
       co_update_interval = 20, co_reauth_requested = False, co_fetches = 0 \<rparr>"

text \<open>
  Modelled from the spec: the class \<^verbatim>\<open>DataUpdateCoordinator\<close>
  (\<^verbatim>\<open>homeassistant/helpers/update_coordinator.py\<close>) is not among the sources. Section 4.3 of
  the specification gives its transition rules: an authentication failure moves to
  \<open>Failed_Auth\<close>, stops the timer, leaves the published snapshot alone and signals that
  re-authentication is needed; any other failure returns to \<open>Ready\<close> with snapshot and
  timer as they were; a success publishes the new snapshot. Each refresh makes one fetch
  and hands the failure, if any, to its caller.
\<close>

definition refresh :: "coordinator \<Rightarrow> exn + device_data list \<Rightarrow> coordinator \<times> (exn + unit)" where
  "refresh c fetched =
     (let c1 = c\<lparr>co_state := Refreshing, co_fetches := co_fetches c + 1\<rparr>
      in case async_update_data fetched of
           Inr snap \<Rightarrow> (c1\<lparr>co_state := Ready, co_data := snap\<rparr>, Inr ())
         | Inl ConfigEntryAuthFailed \<Rightarrow>
             (c1\<lparr>co_state := Failed_Auth, co_timer_running := False,
                 co_reauth_requested := True\<rparr>, Inl ConfigEntryAuthFailed)
         | Inl e \<Rightarrow> (c1\<lparr>co_state := Ready\<rparr>, Inl e))"

text \<open>
  Modelled from the spec: a tick of the refresh timer (also part of the absent
  \<^verbatim>\<open>DataUpdateCoordinator\<close>). A stopped timer fetches nothing; a running one refreshes.
\<close>

definition timer_tick :: "coordinator \<Rightarrow> exn + device_data list \<Rightarrow> coordinator \<times> (exn + unit) option" where
  "timer_tick c fetched =
     (if co_timer_running c then (let (c', r) = refresh c fetched in (c', Some r))
      else (c, None))"

definition currentSnapshot :: "coordinator \<Rightarrow> snapshot" where
  "currentSnapshot c = co_data c"

section \<open>Fireboard: the entity classes\<close>

text \<open>\<^verbatim>\<open>self.coordinator.data[self._unique_id]\<close>: a missing key raises \<^verbatim>\<open>KeyError\<close>.\<close>

definition raw_data :: "snapshot \<Rightarrow> string \<Rightarrow> exn + entity_dict" where
  "raw_data data unique_id =
     (case map_of data unique_id of None \<Rightarrow> Inl (KeyError unique_id) | Some v \<Rightarrow> Inr v)"

text \<open>Reading an entry of a stored dictionary; an entry the dictionary lacks raises.\<close>

fun get_parent_device :: "entity_dict \<Rightarrow> exn + parent_device" where
  "get_parent_device (Battery_sensor pd uid) = Inr pd"
| "get_parent_device (Sensor_entity cd pd st uid) = Inr pd"

fun get_state :: "entity_dict \<Rightarrow> exn + rat option" where
  "get_state (Battery_sensor pd uid) = Inl (KeyError ''state'')"
| "get_state (Sensor_entity cd pd st uid) = Inr st"

fun get_channel_label :: "entity_dict \<Rightarrow> exn + string" where
  "get_channel_label (Battery_sensor pd uid) = Inl (KeyError ''channel_label'')"
| "get_channel_label (Sensor_entity cd pd st uid) = Inr (channel_label cd)"

definition bind_exn :: "exn + 'a \<Rightarrow> ('a \<Rightarrow> exn + 'b) \<Rightarrow> exn + 'b" where
  "bind_exn m f = (case m of Inl e \<Rightarrow> Inl e | Inr v \<Rightarrow> f v)"

record device_info =
  di_manufacturer :: string
  di_model :: string
  di_name :: string
  di_sw_version :: string
  di_identifiers :: "(string \<times> string) list"
  di_connections :: "(string \<times> string) list"

definition device_info_of :: "parent_device \<Rightarrow> device_info" where
  "device_info_of pd =
     \<lparr> di_manufacturer = pd_manufacturer pd,
       di_model = pd_model pd,
       di_name = pd_name pd,
       di_sw_version = pd_sw_version pd,
       di_identifiers = [(''fireboard'', pd_hardware_id pd)],
       di_connections = [(''CONNECTION_NETWORK_MAC'', pd_mac_id pd)] \<rparr>"

datatype fireboard_entity = FireboardBattery string | FireboardSensor string

fun entity_unique_id :: "fireboard_entity \<Rightarrow> string" where
  "entity_unique_id (FireboardBattery unique_id) = unique_id"
| "entity_unique_id (FireboardSensor unique_id) = unique_id"

fun entity_name :: "snapshot \<Rightarrow> fireboard_entity \<Rightarrow> exn + string" where
  "entity_name data (FireboardBattery unique_id) =
     bind_exn (raw_data data unique_id) (\<lambda>r.
     bind_exn (get_parent_device r) (\<lambda>pd. Inr (pd_name pd @ '' Battery'')))"
| "entity_name data (FireboardSensor unique_id) =
     bind_exn (raw_data data unique_id) (\<lambda>r.
     bind_exn (get_channel_label r) (\<lambda>label.
     bind_exn (get_parent_device r) (\<lambda>pd. Inr (pd_name pd @ '' '' @ label))))"

fun entity_device_info :: "snapshot \<Rightarrow> fireboard_entity \<Rightarrow> exn + device_info" where
  "entity_device_info data (FireboardBattery unique_id) =
     bind_exn (raw_data data unique_id) (\<lambda>r.
     bind_exn (get_parent_device r) (\<lambda>pd. Inr (device_info_of pd)))"
| "entity_device_info data (FireboardSensor unique_id) =
     bind_exn (raw_data data unique_id) (\<lambda>r.
     bind_exn (get_parent_device r) (\<lambda>pd. Inr (device_info_of pd)))"

fun entity_device_class :: "fireboard_entity \<Rightarrow> device_class_const" where
  "entity_device_class (FireboardBattery unique_id) = DEVICE_CLASS_BATTERY"
| "entity_device_class (FireboardSensor unique_id) = DEVICE_CLASS_TEMPERATURE"

fun entity_unit_of_measurement :: "snapshot \<Rightarrow> fireboard_entity \<Rightarrow> exn + unit_const" where
  "entity_unit_of_measurement data (FireboardBattery unique_id) = Inr PERCENTAGE"
| "entity_unit_of_measurement data (FireboardSensor unique_id) =
     bind_exn (raw_data data unique_id) (\<lambda>r.
     bind_exn (get_parent_device r) (\<lambda>pd. Inr (pd_unit_of_measurement pd)))"

text \<open>
  The state of a battery entity is a number, that of a sensor a number or \<^verbatim>\<open>None\<close>; both
  are given as \<open>rat option\<close>.
\<close>

fun entity_state :: "snapshot \<Rightarrow> fireboard_entity \<Rightarrow> exn + rat option" where
  "entity_state data (FireboardBattery unique_id) =
     bind_exn (raw_data data unique_id) (\<lambda>r.
     bind_exn (get_parent_device r) (\<lambda>pd. Inr (Some (pd_battery pd))))"
| "entity_state data (FireboardSensor unique_id) =
     bind_exn (raw_data data unique_id) (\<lambda>r. get_state r)"

section \<open>Fireboard: creating the entities at setup\<close>

text \<open>Python's \<^verbatim>\<open>sub in s\<close> on strings: \<^verbatim>\<open>sub\<close> occurs in \<^verbatim>\<open>s\<close> as a contiguous run.\<close>

fun str_in :: "string \<Rightarrow> string \<Rightarrow> bool" where
  "str_in sub [] = (sub = [])"
| "str_in sub (c # cs) = (prefix sub (c # cs) \<or> str_in sub cs)"

definition wrap_key :: "string \<Rightarrow> fireboard_entity" where
  "wrap_key k = (if str_in ''battery'' k then FireboardBattery k else FireboardSensor k)"

definition fireboardEntities :: "snapshot \<Rightarrow> fireboard_entity list" where
  "fireboardEntities data = map (\<lambda>(k, v). wrap_key k) data"

section \<open>Tailscale\<close>

record tailscale_device =
  ts_device_id :: string
  ts_name :: string
  expires :: "nat option"

datatype sensor_device_class = TIMESTAMP

record tailscale_description =
  desc_key :: string
  desc_name :: string
  desc_device_class :: sensor_device_class
  value_fn :: "tailscale_device \<Rightarrow> nat option"

definition SENSORS :: "tailscale_description list" where
  "SENSORS =
     [\<lparr> desc_key = ''expires'', desc_name = ''Expires'', desc_device_class = TIMESTAMP,
        value_fn = (\<lambda>device. expires device) \<rparr>]"

record tailscale_entity =
  ent_device_id :: string
  entity_description :: tailscale_description

text \<open>
  Modelled from the spec: the base class \<^verbatim>\<open>TailscaleEntity\<close> (\<^verbatim>\<open>tailscale/__init__.py\<close>) is
  not among the sources. By section 4.4 an entity view is bound to one key of the
  coordinator's snapshot; its constructor is taken to keep the identifier of the device it
  is given, which \<^verbatim>\<open>native_value\<close> reads back as \<^verbatim>\<open>self.device_id\<close>, and the description.
\<close>

definition TailscaleSensorEntity :: "tailscale_device \<Rightarrow> tailscale_description \<Rightarrow> tailscale_entity" where
  "TailscaleSensorEntity device description =
     \<lparr> ent_device_id = ts_device_id device, entity_description = description \<rparr>"

type_synonym tailscale_snapshot = "(string \<times> tailscale_device) list"

definition tailscale_setup_entry :: "tailscale_snapshot \<Rightarrow> tailscale_entity list" where
  "tailscale_setup_entry data =
     concat (map (\<lambda>device. map (\<lambda>description. TailscaleSensorEntity device description) SENSORS)
               (map snd data))"

definition native_value :: "tailscale_snapshot \<Rightarrow> tailscale_entity \<Rightarrow> exn + nat option" where
  "native_value data e =
     (case map_of data (ent_device_id e) of
        None \<Rightarrow> Inl (KeyError (ent_device_id e))
      | Some device \<Rightarrow> Inr (value_fn (entity_description e) device))"

section \<open>Auxiliary definitions for the proofs\<close>

text \<open>
  The assignments \<^verbatim>\<open>entities[k] = v\<close> that one pass of the device loop makes, in order:
  the battery dictionary first, then one dictionary per channel.
\<close>

definition device_entries :: "device_data \<Rightarrow> (string \<times> entity_dict) list" where
  "device_entries device =
     (let pd = make_parent_device device
      in (battery_unique_id pd, Battery_sensor pd (battery_unique_id pd)) #
         map (\<lambda>cd. (channel_unique_id pd cd, make_sensor_entity device pd cd)) (channels device))"

definition assign_all :: "(string \<times> entity_dict) list \<Rightarrow> snapshot \<Rightarrow> snapshot" where
  "assign_all kvs entities = fold (\<lambda>(k, v). AList.update k v) kvs entities"

definition add_key :: "string \<Rightarrow> string list \<Rightarrow> string list" where
  "add_key k ks = (if k \<in> set ks then ks else ks @ [k])"

text \<open>
  The example of the specification: hardware id FB1, degree type 1, battery fraction 0.8,
  one channel with index 1 and label Probe 1. The entries the example leaves open are
  those of \<open>rest\<close>.
\<close>

definition example_device :: "device_data \<Rightarrow> temp_reading list \<Rightarrow> device_data" where
  "example_device rest temps =
     rest\<lparr> degreetype := 1, hardware_id := ''FB1'', last_battery_reading := 4 / 5,
           channels := [\<lparr>channel = 1, channel_label = ''Probe 1''\<rparr>],
           latest_temps := temps \<rparr>"

definition example_reading :: "nat \<Rightarrow> temp_reading" where
  "example_reading t = \<lparr>reading_channel = 1, reading_temp = 49 / 2, reading_created = t\<rparr>"

definition example_rest :: device_data where
  "example_rest =
     \<lparr> degreetype = 2, hardware_id = ''X'', uuid = ''8a1f'', device_id = 7, model = ''FBX2'',
       title = ''Smoker'', version = ''1.0.5'', device_log_macNIC = ''aa:bb:cc:dd:ee:ff'',
       last_battery_reading = 1 / 2, channels = [], latest_temps = [] \<rparr>"

text \<open>
  The wording of the specification for the lookup of a channel's temperature, to compare
  with \<^const>\<open>channel_temp\<close>: among the readings of the channel, the one taken last. The time
  of a reading is its entry \<^verbatim>\<open>created\<close>, which the source never reads.
\<close>

fun spec_most_recent :: "temp_reading list \<Rightarrow> int \<Rightarrow> temp_reading option" where
  "spec_most_recent [] ch = None"
| "spec_most_recent (x # xs) ch =
     (case spec_most_recent xs ch of
        None \<Rightarrow> (if reading_channel x = ch then Some x else None)
      | Some y \<Rightarrow>
          (if reading_channel x = ch \<and> reading_created y < reading_created x then Some x
           else Some y))"

definition spec_channel_temp :: "temp_reading list \<Rightarrow> int \<Rightarrow> rat option" where
  "spec_channel_temp temps ch = map_option reading_temp (spec_most_recent temps ch)"

definition older_reading :: temp_reading where
  "older_reading = \<lparr>reading_channel = 1, reading_temp = 10, reading_created = 1\<rparr>"

definition newer_reading :: temp_reading where
  "newer_reading = \<lparr>reading_channel = 1, reading_temp = 20, reading_created = 2\<rparr>"

definition example_tailscale :: tailscale_snapshot where
  "example_tailscale =
     [(''n1'', \<lparr>ts_device_id = ''n1'', ts_name = ''laptop'', expires = Some 1700000000\<rparr>),
      (''n2'', \<lparr>ts_device_id = ''n2'', ts_name = ''server'', expires = None\<rparr>)]"

text \<open>Reading a key's number back, to show that the formatting loses nothing.\<close>

definition digit_val :: "char \<Rightarrow> nat" where
  "digit_val c = length (takeWhile (\<lambda>d. d \<noteq> c) ''0123456789'')"

definition read_nat :: "string \<Rightarrow> nat" where
  "read_nat s = foldl (\<lambda>acc c. 10 * acc + digit_val c) 0 s"

fun read_int :: "string \<Rightarrow> int" where
  "read_int [] = 0"
| "read_int (c # s) = (if c = CHR ''-'' then - int (read_nat s) else int (read_nat (c # s)))"

definition digits :: "char set" where
  "digits = set ''0123456789''"

section \<open>Dictionary assignment\<close>

lemma assign_all_Nil [simp]: "assign_all [] e = e"
  by (simp add: assign_all_def)

lemma assign_all_Cons [simp]: "assign_all ((k, v) # kvs) e = assign_all kvs (AList.update k v e)"
  by (simp add: assign_all_def)

lemma assign_all_append: "assign_all (xs @ ys) e = assign_all ys (assign_all xs e)"
  by (simp add: assign_all_def)

lemma channel_fold_assign:
  "fold (channel_loop_step device pd) cds e =
     assign_all (map (\<lambda>cd. (channel_unique_id pd cd, make_sensor_entity device pd cd)) cds) e"
  by (induction cds arbitrary: e) (simp_all add: channel_loop_step_def)

lemma device_loop_step_assign: "device_loop_step device e = assign_all (device_entries device) e"
  by (simp add: device_loop_step_def device_entries_def Let_def channel_fold_assign)

lemma fold_device_assign:
  "fold device_loop_step ds e = assign_all (concat (map device_entries ds)) e"
  by (induction ds arbitrary: e) (simp_all add: device_loop_step_assign assign_all_append)

lemma project_assign: "project ds = assign_all (concat (map device_entries ds)) []"
  by (simp add: project_def fold_device_assign)

lemma keys_update: "map fst (AList.update k v e) = add_key k (map fst e)"
  by (simp add: update_keys add_key_def)

lemma keys_assign_all: "map fst (assign_all kvs e) = fold add_key (map fst kvs) (map fst e)"
proof (induction kvs arbitrary: e)
  case Nil
  then show ?case by simp
next
  case (Cons kv kvs)
  obtain k v where kv: "kv = (k, v)" by (cases kv)
  show ?case by (simp add: kv Cons.IH keys_update)
qed

lemma dom_assign_all: "fst ` set (assign_all kvs e) = fst ` set kvs \<union> fst ` set e"
proof (induction kvs arbitrary: e)
  case Nil
  then show ?case by simp
next
  case (Cons kv kvs)
  obtain k v where kv: "kv = (k, v)" by (cases kv)
  have "fst ` set (assign_all kvs (AList.update k v e)) = fst ` set kvs \<union> ({k} \<union> fst ` set e)"
    by (simp only: Cons.IH dom_update)
  then show ?case by (simp add: kv)
qed

lemma distinct_assign_all: "distinct (map fst e) \<Longrightarrow> distinct (map fst (assign_all kvs e))"
  by (induction kvs arbitrary: e) (auto simp: distinct_update)

lemma set_update_subset: "set (AList.update k v e) \<subseteq> insert (k, v) (set e)"
  by (induction e) auto

lemma set_assign_all: "set (assign_all kvs e) \<subseteq> set kvs \<union> set e"
proof (induction kvs arbitrary: e)
  case Nil
  then show ?case by simp
next
  case (Cons kv kvs)
  obtain k v where kv: "kv = (k, v)" by (cases kv)
  have "set (assign_all kvs (AList.update k v e)) \<subseteq> set kvs \<union> set (AList.update k v e)"
    by (rule Cons.IH)
  also have "\<dots> \<subseteq> set kvs \<union> insert (k, v) (set e)"
    using set_update_subset [of k v e] by blast
  finally show ?case by (auto simp: kv)
qed

lemma map_of_assign_all:
  "map_of (assign_all kvs e) k =
     (case map_of (rev kvs) k of Some v \<Rightarrow> Some v | None \<Rightarrow> map_of e k)"
proof (induction kvs arbitrary: e)
  case Nil
  then show ?case by simp
next
  case (Cons kv kvs)
  obtain k' v' where kv: "kv = (k', v')" by (cases kv)
  show ?case
    by (simp add: kv Cons.IH update_conv' map_add_def split: option.splits)
qed

lemma distinct_project: "distinct (map fst (project ds))"
  by (simp add: project_assign distinct_assign_all)

section \<open>Strings\<close>

lemma format_02_1: "format_02 1 = ''01''"
  by (simp add: format_02_def zfill_def decimal.simps digit_char_def)

lemma str_in_iff_sublist: "str_in sub s \<longleftrightarrow> sublist sub s"
  by (induction s) (simp_all add: sublist_Cons_right)

lemma str_in_iff: "str_in sub s \<longleftrightarrow> (\<exists>p q. s = p @ sub @ q)"
  by (simp add: str_in_iff_sublist sublist_def)

section \<open>The example of the specification\<close>

lemma project_example:
  "project [example_device rest temps] =
     [(''FB1_battery'',
       Battery_sensor (make_parent_device (example_device rest temps)) ''FB1_battery''),
      (''FB1_01'',
       Sensor_entity \<lparr>channel = 1, channel_label = ''Probe 1''\<rparr>
         (make_parent_device (example_device rest temps)) (channel_temp temps 1) ''FB1_01'')]"
  by (simp add: project_def device_loop_step_def channel_loop_step_def Let_def
      battery_unique_id_def channel_unique_id_def make_sensor_entity_def format_02_1
      make_parent_device_def example_device_def)

lemma example_parent:
  "pd_battery (make_parent_device (example_device rest temps)) = 80"
  "pd_unit_of_measurement (make_parent_device (example_device rest temps)) = TEMP_CELSIUS"
  "pd_name (make_parent_device (example_device rest temps)) = title rest"
  by (simp_all add: make_parent_device_def example_device_def unit_of_device_def)

text \<open>
  Claim C2. The example device, with the reading (channel 1, 24.5), projects to exactly the
  two keys \<open>FB1_battery\<close> and \<open>FB1_01\<close>, wrapped as a battery entity and a sensor entity;
  the battery entity has state 80 and unit percent; the sensor entity has state 24.5, unit
  Celsius and a name that contains \<open>Probe 1\<close>. Projected again with no readings, the same
  two keys are there and the sensor's state is null.
\<close>

theorem example_projection:
  "map fst (project [example_device rest [example_reading t]]) = [''FB1_battery'', ''FB1_01'']
   \<and> fireboardEntities (project [example_device rest [example_reading t]]) =
       [FireboardBattery ''FB1_battery'', FireboardSensor ''FB1_01'']
   \<and> entity_state (project [example_device rest [example_reading t]])
        (FireboardBattery ''FB1_battery'') = Inr (Some 80)
   \<and> entity_unit_of_measurement (project [example_device rest [example_reading t]])
        (FireboardBattery ''FB1_battery'') = Inr PERCENTAGE
   \<and> entity_state (project [example_device rest [example_reading t]])
        (FireboardSensor ''FB1_01'') = Inr (Some (49 / 2))
   \<and> entity_unit_of_measurement (project [example_device rest [example_reading t]])
        (FireboardSensor ''FB1_01'') = Inr TEMP_CELSIUS
   \<and> entity_name (project [example_device rest [example_reading t]])
        (FireboardSensor ''FB1_01'') = Inr (title rest @ '' Probe 1'')
   \<and> str_in ''Probe 1'' (title rest @ '' Probe 1'')
   \<and> map fst (project [example_device rest []]) = [''FB1_battery'', ''FB1_01'']
   \<and> entity_state (project [example_device rest []]) (FireboardSensor ''FB1_01'') = Inr None"
proof -
  have "str_in ''Probe 1'' (title rest @ '' Probe 1'')"
    unfolding str_in_iff by (intro exI [of _ "title rest @ '' ''"] exI [of _ "[]"]) simp
  then show ?thesis
    by (simp add: project_example example_parent fireboardEntities_def wrap_key_def
        raw_data_def bind_exn_def example_reading_def)
qed

section \<open>Failures of a refresh\<close>

text \<open>
  Claim C3. When the fetch fails with the authentication error of the API client, the
  update method raises \<open>ConfigEntryAuthFailed\<close>; the refresh hands that failure to its
  caller, moves the coordinator to \<open>Failed_Auth\<close>, asks for re-authentication and stops
  the timer, so that a later tick of the timer fetches nothing; the published snapshot is
  the one from before.
\<close>

theorem auth_failure_freezes_state:
  "async_update_data (Inl FireboardApiAuthError) = Inl ConfigEntryAuthFailed
   \<and> snd (refresh c (Inl FireboardApiAuthError)) = Inl ConfigEntryAuthFailed
   \<and> co_state (fst (refresh c (Inl FireboardApiAuthError))) = Failed_Auth
   \<and> currentSnapshot (fst (refresh c (Inl FireboardApiAuthError))) = currentSnapshot c
   \<and> co_reauth_requested (fst (refresh c (Inl FireboardApiAuthError)))
   \<and> \<not> co_timer_running (fst (refresh c (Inl FireboardApiAuthError)))
   \<and> timer_tick (fst (refresh c (Inl FireboardApiAuthError))) fetched =
       (fst (refresh c (Inl FireboardApiAuthError)), None)"
  by (simp add: refresh_def timer_tick_def currentSnapshot_def Let_def)

text \<open>
  Claim C4. When the fetch fails with an API error other than the authentication error,
  the update method raises \<open>UpdateFailed\<close> with the error's message; a timeout leaves the
  update method as it is. In both cases the refresh hands the failure to its caller, the
  coordinator is \<open>Ready\<close> again, the published snapshot is the one from before, and the
  timer and the refresh interval (20 seconds from the start) are as they were.
\<close>

theorem transient_failure_preserves_snapshot:
  "async_update_data (Inl (FireboardApiError err)) =
     Inl (UpdateFailed (''Error communicating with API: '' @ err))
   \<and> snd (refresh c (Inl (FireboardApiError err))) =
       Inl (UpdateFailed (''Error communicating with API: '' @ err))
   \<and> snd (refresh c (Inl AsyncioTimeoutError)) = Inl AsyncioTimeoutError
   \<and> currentSnapshot (fst (refresh c (Inl (FireboardApiError err)))) = currentSnapshot c
   \<and> currentSnapshot (fst (refresh c (Inl AsyncioTimeoutError))) = currentSnapshot c
   \<and> co_state (fst (refresh c (Inl (FireboardApiError err)))) = Ready
   \<and> co_state (fst (refresh c (Inl AsyncioTimeoutError))) = Ready
   \<and> co_timer_running (fst (refresh c (Inl (FireboardApiError err)))) = co_timer_running c
   \<and> co_timer_running (fst (refresh c (Inl AsyncioTimeoutError))) = co_timer_running c
   \<and> co_update_interval (fst (refresh c (Inl (FireboardApiError err)))) = co_update_interval c
   \<and> co_update_interval (fst (refresh c (Inl AsyncioTimeoutError))) = co_update_interval c
   \<and> co_update_interval new_coordinator = 20"
  by (simp add: refresh_def currentSnapshot_def Let_def new_coordinator_def)

section \<open>The temperature of a channel\<close>

lemma channel_temp_find:
  "channel_temp temps ch = map_option reading_temp (find (\<lambda>x. reading_channel x = ch) temps)"
  by (induction temps) simp_all

lemma channel_temp_None: "channel_temp temps ch = None \<longleftrightarrow> ch \<notin> reading_channel ` set temps"
  by (induction temps) auto

text \<open>
  Claim C7, as stated, fails: of two readings of channel 1, the older one (temperature 10,
  taken at time 1) listed before the newer one (temperature 20, taken at time 2), the
  source takes the older, the wording of the specification the newer.
\<close>

theorem channel_temp_not_most_recent:
  "channel_temp [older_reading, newer_reading] 1 = Some 10
   \<and> spec_channel_temp [older_reading, newer_reading] 1 = Some 20"
  by (simp add: older_reading_def newer_reading_def spec_channel_temp_def)

text \<open>
  Claim C7, amended. The state of a channel's dictionary is the temperature of the first
  reading, in the order of the list \<^verbatim>\<open>latest_temps\<close>, whose channel is the channel's index,
  and null when no reading has that channel.
\<close>

theorem channel_temp_first_match:
  "get_state (make_sensor_entity device pd cd) =
     Inr (map_option reading_temp
            (find (\<lambda>x. reading_channel x = channel cd) (latest_temps device)))
   \<and> (get_state (make_sensor_entity device pd cd) = Inr None \<longleftrightarrow>
        channel cd \<notin> reading_channel ` set (latest_temps device))"
  by (simp add: make_sensor_entity_def channel_temp_None channel_temp_find [symmetric])

section \<open>Entities whose key is missing\<close>

text \<open>
  Claim C8, as stated, fails: the unit of a battery entity is the constant
  \<open>PERCENTAGE\<close>, returned without a lookup, also when the snapshot lacks the key.
\<close>

theorem battery_unit_without_lookup:
  "map_of ([] :: snapshot) ''FB1_battery'' = None
   \<and> entity_unit_of_measurement [] (FireboardBattery ''FB1_battery'') = Inr PERCENTAGE"
  by simp

text \<open>
  Claim C8, amended. When the snapshot lacks the key of an entity, its name, state and
  device info raise \<open>KeyError\<close> for both entity classes, and so does the unit of a sensor
  entity.
\<close>

theorem missing_key_lookup_error:
  assumes "map_of data k = None"
  shows "entity_name data (FireboardBattery k) = Inl (KeyError k)
    \<and> entity_state data (FireboardBattery k) = Inl (KeyError k)
    \<and> entity_device_info data (FireboardBattery k) = Inl (KeyError k)
    \<and> entity_name data (FireboardSensor k) = Inl (KeyError k)
    \<and> entity_state data (FireboardSensor k) = Inl (KeyError k)
    \<and> entity_device_info data (FireboardSensor k) = Inl (KeyError k)
    \<and> entity_unit_of_measurement data (FireboardSensor k) = Inl (KeyError k)"
  using assms by (simp add: raw_data_def bind_exn_def)

theorem missing_key_lookup_error_witness:
  "map_of (project [example_device example_rest []]) ''FB1_02'' = None
   \<and> entity_state (project [example_device example_rest []]) (FireboardSensor ''FB1_02'') =
       Inl (KeyError ''FB1_02'')
   \<and> entity_name (project [example_device example_rest []]) (FireboardBattery ''FB1_02'') =
       Inl (KeyError ''FB1_02'')"
proof -
  have h: "map_of (project [example_device example_rest []]) ''FB1_02'' = None"
    by (simp add: project_example)
  show ?thesis
    using h missing_key_lookup_error [OF h] by simp
qed

section \<open>Tailscale: one sensor per device\<close>

lemma tailscale_setup_entry_map:
  "tailscale_setup_entry data =
     map (\<lambda>kd. \<lparr>ent_device_id = ts_device_id (snd kd), entity_description = hd SENSORS\<rparr>) data"
  by (induction data) (simp_all add: tailscale_setup_entry_def SENSORS_def TailscaleSensorEntity_def)

text \<open>
  Claim C9. For a snapshot that is keyed by the devices' identifiers, setup creates one
  entity per device, in the order of the snapshot: the entity at position \<open>i\<close> is bound to
  the identifier of the device at position \<open>i\<close>, has device class \<open>TIMESTAMP\<close>, and its
  value is the \<open>expires\<close> entry (possibly null) of that device. The value is looked up at
  access time: on any other snapshot \<open>current\<close> it is the \<open>expires\<close> entry of the device
  that \<open>current\<close> holds under the identifier, and \<open>KeyError\<close> when it holds none.
\<close>

theorem tailscale_expires_sensors:
  assumes "distinct (map fst data)"
    and "\<forall>kd\<in>set data. ts_device_id (snd kd) = fst kd"
    and "i < length data"
  shows "length (tailscale_setup_entry data) = length data
    \<and> ent_device_id (tailscale_setup_entry data ! i) = ts_device_id (snd (data ! i))
    \<and> desc_device_class (entity_description (tailscale_setup_entry data ! i)) = TIMESTAMP
    \<and> native_value data (tailscale_setup_entry data ! i) = Inr (expires (snd (data ! i)))
    \<and> native_value current (tailscale_setup_entry data ! i) =
        (case map_of current (ts_device_id (snd (data ! i))) of
           None \<Rightarrow> Inl (KeyError (ts_device_id (snd (data ! i))))
         | Some device \<Rightarrow> Inr (expires device))"
proof -
  have mem: "data ! i \<in> set data" using assms(3) by simp
  then have key: "ts_device_id (snd (data ! i)) = fst (data ! i)" using assms(2) by blast
  have "(fst (data ! i), snd (data ! i)) \<in> set data" using mem by simp
  then have look: "map_of data (fst (data ! i)) = Some (snd (data ! i))"
    using assms(1) by (simp only: map_of_eq_Some_iff)
  show ?thesis
    using assms(3)
    by (simp add: tailscale_setup_entry_map native_value_def key look SENSORS_def
        split: option.splits)
qed

theorem tailscale_expires_sensors_witness:
  "distinct (map fst example_tailscale)
   \<and> ts_device_id (snd (example_tailscale ! 0)) = fst (example_tailscale ! 0)
   \<and> ts_device_id (snd (example_tailscale ! 1)) = fst (example_tailscale ! 1)
   \<and> (1::nat) < length example_tailscale
   \<and> length (tailscale_setup_entry example_tailscale) = 2
   \<and> ent_device_id (tailscale_setup_entry example_tailscale ! 1) = ''n2''
   \<and> native_value example_tailscale (tailscale_setup_entry example_tailscale ! 1) = Inr None
   \<and> native_value [] (tailscale_setup_entry example_tailscale ! 1) = Inl (KeyError ''n2'')"
proof -
  have d: "distinct (map fst example_tailscale)" by (simp add: example_tailscale_def)
  have k: "\<forall>kd\<in>set example_tailscale. ts_device_id (snd kd) = fst kd"
    by (simp add: example_tailscale_def)
  have i: "(1::nat) < length example_tailscale" by (simp add: example_tailscale_def)
  show ?thesis
    using tailscale_expires_sensors [OF d k i, of "[]"] d i
    by (simp add: example_tailscale_def)
qed

section \<open>The formatted channel index determines the index\<close>

lemma mod_10_cases:
  "(d::nat) mod 10 = 0 \<or> d mod 10 = 1 \<or> d mod 10 = 2 \<or> d mod 10 = 3 \<or> d mod 10 = 4 \<or>
   d mod 10 = 5 \<or> d mod 10 = 6 \<or> d mod 10 = 7 \<or> d mod 10 = 8 \<or> d mod 10 = 9"
  by presburger

lemma digit_val_digit_char: "digit_val (digit_char d) = d mod 10"
  using mod_10_cases [of d] by (auto simp: digit_char_def digit_val_def)

lemma digit_char_mem: "digit_char d \<in> digits"
  using mod_10_cases [of d] by (auto simp: digit_char_def digits_def)

lemma not_digits:
  "CHR ''0'' \<in> digits" "CHR ''-'' \<notin> digits" "CHR ''_'' \<notin> digits" "CHR ''b'' \<notin> digits"
  by (simp_all add: digits_def)

lemma set_decimal: "set (decimal n) \<subseteq> digits"
proof (induction n rule: decimal.induct)
  case (1 n)
  show ?case
  proof (cases "n < 10")
    case True
    then show ?thesis using digit_char_mem [of n] by (simp add: decimal.simps [of n])
  next
    case False
    then show ?thesis
      using 1 digit_char_mem [of "n mod 10"] by (simp add: decimal.simps [of n])
  qed
qed

lemma decimal_not_Nil: "decimal n \<noteq> []"
  by (simp add: decimal.simps [of n])

lemma read_nat_snoc: "read_nat (s @ [c]) = 10 * read_nat s + digit_val c"
  by (simp add: read_nat_def)

lemma read_nat_decimal: "read_nat (decimal n) = n"
proof (induction n rule: decimal.induct)
  case (1 n)
  show ?case
  proof (cases "n < 10")
    case True
    then show ?thesis
      by (simp add: decimal.simps [of n] read_nat_def digit_val_digit_char)
  next
    case False
    then have "read_nat (decimal (n div 10)) = n div 10" using 1 by simp
    then show ?thesis
      using False by (simp add: decimal.simps [of n] read_nat_snoc digit_val_digit_char)
  qed
qed

lemma read_nat_zeros: "read_nat (replicate k (CHR ''0'') @ s) = read_nat s"
proof -
  have z: "foldl (\<lambda>acc c. 10 * acc + digit_val c) 0 (replicate k (CHR ''0'')) = 0"
    by (induction k) (simp_all add: digit_val_def)
  show ?thesis by (simp add: read_nat_def z)
qed

lemma read_nat_zfill: "read_nat (zfill w (decimal n)) = n"
  by (simp add: zfill_def read_nat_zeros read_nat_decimal)

lemma set_zfill_decimal: "set (zfill w (decimal n)) \<subseteq> digits"
proof
  fix x
  assume "x \<in> set (zfill w (decimal n))"
  then have "x = CHR ''0'' \<or> x \<in> set (decimal n)"
    by (auto simp: zfill_def)
  then show "x \<in> digits"
    using set_decimal [of n] not_digits(1) by blast
qed

lemma zfill_not_Nil: "zfill w (decimal n) \<noteq> []"
  by (simp add: zfill_def decimal_not_Nil)

lemma read_int_format_02: "read_int (format_02 n) = n"
proof (cases "n < 0")
  case True
  then show ?thesis by (simp add: format_02_def read_nat_zfill)
next
  case False
  obtain c s where cs: "zfill 2 (decimal (nat n)) = c # s"
    using zfill_not_Nil [of 2 "nat n"] by (cases "zfill 2 (decimal (nat n))") auto
  have "c \<in> digits"
    using set_zfill_decimal [of 2 "nat n"] by (simp add: cs)
  then have "c \<noteq> CHR ''-''" using not_digits(2) by blast
  moreover have "read_nat (c # s) = nat n"
    using read_nat_zfill [of 2 "nat n"] by (simp add: cs)
  ultimately show ?thesis using False by (simp add: format_02_def cs)
qed

lemma format_02_inj: "format_02 m = format_02 n \<longleftrightarrow> m = n"
  by (metis read_int_format_02)

lemma set_format_02: "set (format_02 n) \<subseteq> insert (CHR ''-'') digits"
  using set_zfill_decimal [of 1 "nat (- n)"] set_zfill_decimal [of 2 "nat n"]
  by (auto simp: format_02_def)

lemma underscore_not_in_format_02: "CHR ''_'' \<notin> set (format_02 n)"
  using set_format_02 [of n] not_digits(3) by auto

lemma format_02_not_battery: "format_02 n \<noteq> ''battery''"
proof
  assume "format_02 n = ''battery''"
  then have "CHR ''b'' \<in> set (format_02 n)" by simp
  then show False using set_format_02 [of n] not_digits(4) by auto
qed

lemma split_at_last:
  "c \<notin> set s1 \<Longrightarrow> c \<notin> set s2 \<Longrightarrow> a @ c # s1 = b @ c # s2 \<Longrightarrow> a = b \<and> s1 = s2"
proof (induction a arbitrary: b)
  case Nil
  then show ?case by (cases b) auto
next
  case (Cons x a)
  show ?case
  proof (cases b)
    case Nil
    then show ?thesis using Cons.prems by auto
  next
    case (Cons y b')
    then show ?thesis using Cons.prems Cons.IH [of b'] by auto
  qed
qed

section \<open>What the snapshot holds under a key\<close>

lemma battery_key_eq:
  "battery_unique_id (make_parent_device d) = hardware_id d @ CHR ''_'' # ''battery''"
  by (simp add: battery_unique_id_def make_parent_device_def)

lemma channel_key_eq:
  "channel_unique_id (make_parent_device d) cd = hardware_id d @ CHR ''_'' # format_02 (channel cd)"
  by (simp add: channel_unique_id_def make_parent_device_def)

lemma channel_key_inj:
  "channel_unique_id (make_parent_device d) cd = channel_unique_id (make_parent_device d') cd'
     \<longleftrightarrow> hardware_id d = hardware_id d' \<and> channel cd = channel cd'"
  using split_at_last [OF underscore_not_in_format_02 underscore_not_in_format_02,
      of "hardware_id d" "channel cd" "hardware_id d'" "channel cd'"]
  by (auto simp: channel_key_eq format_02_inj)

lemma battery_key_inj:
  "battery_unique_id (make_parent_device d) = battery_unique_id (make_parent_device d')
     \<longleftrightarrow> hardware_id d = hardware_id d'"
  by (simp add: battery_key_eq)

lemma battery_key_not_channel_key:
  "battery_unique_id (make_parent_device d) \<noteq> channel_unique_id (make_parent_device d') cd"
proof
  assume eq: "battery_unique_id (make_parent_device d) = channel_unique_id (make_parent_device d') cd"
  have "CHR ''_'' \<notin> set ''battery''" by simp
  from split_at_last [OF this underscore_not_in_format_02 eq [unfolded battery_key_eq channel_key_eq]]
  show False using format_02_not_battery [of "channel cd"] by simp
qed

lemma device_entries_iff:
  "(k, v) \<in> set (device_entries d) \<longleftrightarrow>
     (k = battery_unique_id (make_parent_device d) \<and>
      v = Battery_sensor (make_parent_device d) (battery_unique_id (make_parent_device d)))
     \<or> (\<exists>cd\<in>set (channels d). k = channel_unique_id (make_parent_device d) cd \<and>
          v = make_sensor_entity d (make_parent_device d) cd)"
  by (auto simp: device_entries_def Let_def)

lemma map_of_project_entry:
  assumes "map_of (project ds) k = Some v"
  shows "\<exists>d\<in>set ds. (k, v) \<in> set (device_entries d)"
proof -
  have "(k, v) \<in> set (project ds)" using assms by (rule map_of_SomeD)
  then have "(k, v) \<in> set (concat (map device_entries ds))"
    using set_assign_all [of "concat (map device_entries ds)" "[]"] by (auto simp: project_assign)
  then show ?thesis by auto
qed

lemma project_has_key:
  assumes "d \<in> set ds" and "(k, v) \<in> set (device_entries d)"
  shows "\<exists>v'. map_of (project ds) k = Some v'"
proof -
  have "k \<in> fst ` set (concat (map device_entries ds))"
    using assms by (force simp: image_iff)
  then have "k \<in> fst ` set (project ds)"
    by (simp add: project_assign dom_assign_all)
  then have "map_of (project ds) k \<noteq> None"
    by (simp add: map_of_eq_None_iff)
  then show ?thesis by auto
qed

lemma lookup_battery_key:
  assumes "d \<in> set ds"
  shows "\<exists>d'\<in>set ds. hardware_id d' = hardware_id d \<and>
           map_of (project ds) (battery_unique_id (make_parent_device d)) =
             Some (Battery_sensor (make_parent_device d')
                     (battery_unique_id (make_parent_device d)))"
proof -
  let ?k = "battery_unique_id (make_parent_device d)"
  have "(?k, Battery_sensor (make_parent_device d) ?k) \<in> set (device_entries d)"
    by (simp add: device_entries_iff)
  from project_has_key [OF assms this] obtain v' where v': "map_of (project ds) ?k = Some v'"
    by blast
  from map_of_project_entry [OF v'] obtain d' where d': "d' \<in> set ds"
    and e: "(?k, v') \<in> set (device_entries d')" by blast
  from e have "?k = battery_unique_id (make_parent_device d') \<and>
      v' = Battery_sensor (make_parent_device d') (battery_unique_id (make_parent_device d'))"
    unfolding device_entries_iff using battery_key_not_channel_key [of d d'] by blast
  then show ?thesis using d' v' by (auto simp: battery_key_inj)
qed

lemma lookup_channel_key:
  assumes "d \<in> set ds" and "cd \<in> set (channels d)"
  shows "\<exists>d'\<in>set ds. \<exists>cd'\<in>set (channels d'). hardware_id d' = hardware_id d \<and>
           channel cd' = channel cd \<and>
           map_of (project ds) (channel_unique_id (make_parent_device d) cd) =
             Some (make_sensor_entity d' (make_parent_device d') cd')"
proof -
  let ?k = "channel_unique_id (make_parent_device d) cd"
  have "(?k, make_sensor_entity d (make_parent_device d) cd) \<in> set (device_entries d)"
    using assms(2) by (auto simp: device_entries_iff)
  from project_has_key [OF assms(1) this] obtain v' where v': "map_of (project ds) ?k = Some v'"
    by blast
  from map_of_project_entry [OF v'] obtain d' where d': "d' \<in> set ds"
    and e: "(?k, v') \<in> set (device_entries d')" by blast
  from e obtain cd' where cd': "cd' \<in> set (channels d')"
    and k: "?k = channel_unique_id (make_parent_device d') cd'"
    and v: "v' = make_sensor_entity d' (make_parent_device d') cd'"
    unfolding device_entries_iff using battery_key_not_channel_key [of d' d cd] by metis
  from k have "hardware_id d' = hardware_id d \<and> channel cd' = channel cd"
    by (simp add: channel_key_inj)
  then show ?thesis using d' cd' v v' by blast
qed

lemma same_hardware_id:
  "distinct (map hardware_id ds) \<Longrightarrow> d \<in> set ds \<Longrightarrow> d' \<in> set ds \<Longrightarrow>
     hardware_id d' = hardware_id d \<Longrightarrow> d' = d"
  by (auto simp: distinct_map dest: inj_onD)

end
